theory Spec2Isabelle
  imports Complex_Main
begin

section \<open>Troposphere model of \<^verbatim>\<open>src/LEO/tropmodel.c\<close>\<close>

text \<open>
  The C source computes with IEEE \<^verbatim>\<open>double\<close>. The embedding reads every
  \<^verbatim>\<open>double\<close> as a \<^typ>\<open>real\<close> and every arithmetic operation and library
  call (\<^verbatim>\<open>pow\<close>, \<^verbatim>\<open>exp\<close>, \<^verbatim>\<open>sin\<close>, \<^verbatim>\<open>cos\<close>, \<^verbatim>\<open>fabs\<close>) as the
  exact operation on the reals: infinities and NaN are not part of the model, and rounding
  is modelled in one place only, the zenith angle of \<open>tropmodel\<close>, where it decides a
  claim (\<open>tropmodel_rounded\<close> below). Comparisons, branches, array indexing and the
  order of the operations are those of the source. Division is HOL's total division
  (\<open>x / 0 = 0\<close>), where C yields an infinity or NaN; on the values the program passes,
  the only divisors that can vanish are those built from the sine of the elevation, and the
  theorems on the sign of a result assume an elevation whose sine is positive.

  An argument \<^verbatim>\<open>const double *pos\<close> or \<^verbatim>\<open>const double *azel\<close> is the list of the
  array's elements, read with \<open>!\<close>; the theorems are stated for the three-element
  \<open>[lat, lon, h]\<close> and the two-element \<open>[az, el]\<close> the callers pass.
\<close>

subsection \<open>Constants of the missing header\<close>

text \<open>
  Modelled from the spec: the macros \<^verbatim>\<open>PI\<close> and \<^verbatim>\<open>R2D\<close> come from
  \<^verbatim>\<open>leoorb.h\<close>, which is not among the sources. The spec writes \<open>\<pi>\<close> and
  "latitude in degrees", so \<open>PI\<close> is \<open>\<pi>\<close> and \<open>R2D\<close> is \<open>180/\<pi>\<close>.
\<close>

definition PI :: real where
  "PI = pi"

definition R2D :: real where
  "R2D = 180 / PI"

subsection \<open>\<^verbatim>\<open>tropmodel\<close>: standard atmosphere and Saastamoinen model\<close>

text \<open>
  \<^verbatim>\<open>pow(x, y)\<close> is \<open>x powr y\<close>; its base \<open>1 - 2.2557E-5 * hgt\<close> is positive on the
  only path that reaches it (\<open>0 \<le> hgt \<le> 10000\<close>). The argument \<open>time\<close> is unused by
  the source and kept as a parameter of any type.
\<close>

definition tropmodel :: "'t \<Rightarrow> real list \<Rightarrow> real list \<Rightarrow> real \<Rightarrow> real" where
  "tropmodel time pos azel humi =
     (let temp0 = 15.0 in
      if pos ! 2 < - 100.0 \<or> 10000 < pos ! 2 \<or> azel ! 1 \<le> 0 then 0.0
      else
        let hgt = (if pos ! 2 < 0.0 then 0.0 else pos ! 2);
            pres = 1013.25 * (1.0 - 2.2557 / 10 ^ 5 * hgt) powr 5.2568;
            temp = temp0 - 6.5 / 10 ^ 3 * hgt + 273.16;
            e = 6.108 * humi * exp ((17.15 * temp - 4684.0) / (temp - 38.45));
            z = PI / 2.0 - azel ! 1;
            trph = 0.0022768 * pres
                     / (1.0 - 0.00266 * cos (2.0 * pos ! 0) - 0.00028 * hgt / 10 ^ 3) / cos z;
            trpw = 0.002277 * (1255.0 / temp + 0.05) * e / cos z
        in trph + trpw)"

text \<open>
  The spec's reading of the hydrostatic term, for comparison with the source: pressure and
  temperature from the clamped height, the raw height \<open>pos ! 2\<close> in the denominator term
  \<open>0.00028 * h / 1000\<close>.
\<close>

definition tropmodel_spec :: "'t \<Rightarrow> real list \<Rightarrow> real list \<Rightarrow> real \<Rightarrow> real" where
  "tropmodel_spec time pos azel humi =
     (if pos ! 2 < - 100.0 \<or> 10000 < pos ! 2 \<or> azel ! 1 \<le> 0 then 0.0
      else
        let hgt = max (pos ! 2) 0;
            pres = 1013.25 * (1.0 - 2.2557 / 10 ^ 5 * hgt) powr 5.2568;
            temp = 15.0 - 6.5 / 10 ^ 3 * hgt + 273.16;
            e = 6.108 * humi * exp ((17.15 * temp - 4684.0) / (temp - 38.45));
            z = PI / 2.0 - azel ! 1;
            trph = 0.0022768 * pres
                     / (1.0 - 0.00266 * cos (2.0 * pos ! 0) - 0.00028 * pos ! 2 / 1000) / cos z;
            trpw = 0.002277 * (1255.0 / temp + 0.05) * e / cos z
        in trph + trpw)"

subsection \<open>\<^verbatim>\<open>tropmodel\<close> with the zenith angle as a \<^verbatim>\<open>double\<close>\<close>

text \<open>
  The statement \<^verbatim>\<open>z = PI / 2.0 - azel[1]\<close> subtracts two doubles and rounds the
  difference to a double. \<open>tropmodel_rounded\<close> is \<open>tropmodel\<close> with this rounding
  \<open>rnd\<close> and the value \<open>PIc\<close> of the constant \<^verbatim>\<open>PI\<close> as parameters and every
  other operation exact; with no rounding and \<open>\<pi>\<close> it is \<open>tropmodel\<close>
  (\<open>tropmodel_rounded_exact\<close>).
\<close>

definition tropmodel_rounded ::
  "(real \<Rightarrow> real) \<Rightarrow> real \<Rightarrow> 't \<Rightarrow> real list \<Rightarrow> real list \<Rightarrow> real \<Rightarrow> real" where
  "tropmodel_rounded rnd PIc time pos azel humi =
     (let temp0 = 15.0 in
      if pos ! 2 < - 100.0 \<or> 10000 < pos ! 2 \<or> azel ! 1 \<le> 0 then 0.0
      else
        let hgt = (if pos ! 2 < 0.0 then 0.0 else pos ! 2);
            pres = 1013.25 * (1.0 - 2.2557 / 10 ^ 5 * hgt) powr 5.2568;
            temp = temp0 - 6.5 / 10 ^ 3 * hgt + 273.16;
            e = 6.108 * humi * exp ((17.15 * temp - 4684.0) / (temp - 38.45));
            z = rnd (PIc / 2.0 - azel ! 1);
            trph = 0.0022768 * pres
                     / (1.0 - 0.00266 * cos (2.0 * pos ! 0) - 0.00028 * hgt / 10 ^ 3) / cos z;
            trpw = 0.002277 * (1255.0 / temp + 0.05) * e / cos z
        in trph + trpw)"

text \<open>
  Modelled from the spec: the macro \<^verbatim>\<open>PI\<close> of the missing header, as a double.
  \<open>PI_d\<close> is the double nearest to \<open>\<pi>\<close>, \<^verbatim>\<open>0x400921FB54442D18\<close>; it lies below
  \<open>\<pi>\<close> (\<open>PI_d_less_pi\<close>). \<^verbatim>\<open>PI / 2.0\<close> is exact in binary arithmetic.
\<close>

definition PI_d :: real where
  "PI_d = 884279719003555 / 2 ^ 48"

text \<open>
  Rounding to the nearest multiple of \<open>2^-52\<close>, ties to the even multiple. The doubles
  from 1 up to 2 are the multiples of \<open>2^-52\<close>, so on that range \<open>round52\<close> is the
  rounding of IEEE double arithmetic in its default mode. Below 1 the doubles lie closer,
  and \<open>round52\<close> is the rounding of the doubles only at an argument that is itself a
  multiple of \<open>2^-52\<close>, which it returns unchanged. \<open>PI_d / 2\<close> lies between 1 and 2.
\<close>

definition round_even :: "real \<Rightarrow> int" where
  "round_even y =
     (let f = \<lfloor>y\<rfloor>; r = y - real_of_int f in
      if r < 1 / 2 then f else if 1 / 2 < r then f + 1 else if even f then f else f + 1)"

definition round52 :: "real \<Rightarrow> real" where
  "round52 x = real_of_int (round_even (x * 2 ^ 52)) / 2 ^ 52"

subsection \<open>\<^verbatim>\<open>interpc\<close>: interpolation in a row of the coefficient table\<close>

text \<open>
  The cast \<^verbatim>\<open>(int)x\<close> truncates toward zero when the truncated value fits the
  32-bit \<^verbatim>\<open>int\<close>, that is for \<open>-2^31 - 1 < x < 2^31\<close>. Outside this range the
  conversion is undefined in C; the model returns what the conversion instruction of
  x86-64 returns there, \<^verbatim>\<open>INT_MIN\<close>. For \<open>interpc\<close> the range is left from the
  latitude \<open>15 * 2^31\<close> degrees on, and the theorems that say what \<open>interpc\<close> returns
  above the table are stated below this latitude.
\<close>

definition c_int :: "real \<Rightarrow> int" where
  "c_int x =
     (if - (2 ^ 31) - 1 < x \<and> x < 2 ^ 31 then (if 0 \<le> x then \<lfloor>x\<rfloor> else \<lceil>x\<rceil>)
      else - (2 ^ 31))"

definition interpc :: "real list \<Rightarrow> real \<Rightarrow> real" where
  "interpc coef lat =
     (let i = c_int (lat / 15.0) in
      if i < 1 then coef ! 0
      else if i > 4 then coef ! 4
      else coef ! nat (i - 1) * (1.0 - lat / 15.0 + real_of_int i)
             + coef ! nat i * (lat / 15.0 - real_of_int i))"

text \<open>
  The spec's reading of the interpolation, for comparison with the source: the band index
  \<open>\<lfloor>lat/15\<rfloor>\<close> is clamped to \<open>[1, 4]\<close> and the blending formula is applied with the
  clamped index.
\<close>

definition interpc_spec :: "real list \<Rightarrow> real \<Rightarrow> real" where
  "interpc_spec coef lat =
     (let i = max 1 (min 4 \<lfloor>lat / 15\<rfloor>) in
      coef ! nat (i - 1) * (1 - lat / 15 + real_of_int i)
        + coef ! nat i * (lat / 15 - real_of_int i))"

subsection \<open>\<^verbatim>\<open>mapf\<close>: the continued-fraction mapping form\<close>

definition mapf :: "real \<Rightarrow> real \<Rightarrow> real \<Rightarrow> real \<Rightarrow> real" where
  "mapf el a b c =
     (let sinel = sin el in
      (1.0 + a / (1.0 + b / (1.0 + c))) / (sinel + (a / (sinel + b / (sinel + c)))))"

subsection \<open>\<^verbatim>\<open>nmf\<close>: the Niell mapping function\<close>

text \<open>
  The table \<^verbatim>\<open>coef[][5]\<close>: hydrostatic average a, b, c (rows 0 to 2), hydrostatic
  amplitude a, b, c (rows 3 to 5) and wet a, b, c (rows 6 to 8), at the latitudes 15, 30,
  45, 60 and 75 degrees.
\<close>

definition coef :: "real list list" where
  "coef =
   [[1.2769934 / 10 ^ 3, 1.2683230 / 10 ^ 3, 1.2465397 / 10 ^ 3, 1.2196049 / 10 ^ 3, 1.2045996 / 10 ^ 3],
    [2.9153695 / 10 ^ 3, 2.9152299 / 10 ^ 3, 2.9288445 / 10 ^ 3, 2.9022565 / 10 ^ 3, 2.9024912 / 10 ^ 3],
    [62.610505 / 10 ^ 3, 62.837393 / 10 ^ 3, 63.721774 / 10 ^ 3, 63.824265 / 10 ^ 3, 64.258455 / 10 ^ 3],

    [0.0000000, 1.2709626 / 10 ^ 5, 2.6523662 / 10 ^ 5, 3.4000452 / 10 ^ 5, 4.1202191 / 10 ^ 5],
    [0.0000000, 2.1414979 / 10 ^ 5, 3.0160779 / 10 ^ 5, 7.2562722 / 10 ^ 5, 11.723375 / 10 ^ 5],
    [0.0000000, 9.0128400 / 10 ^ 5, 4.3497037 / 10 ^ 5, 84.795348 / 10 ^ 5, 170.37206 / 10 ^ 5],

    [5.8021897 / 10 ^ 4, 5.6794847 / 10 ^ 4, 5.8118019 / 10 ^ 4, 5.9727542 / 10 ^ 4, 6.1641693 / 10 ^ 4],
    [1.4275268 / 10 ^ 3, 1.5138625 / 10 ^ 3, 1.4572752 / 10 ^ 3, 1.5007428 / 10 ^ 3, 1.7599082 / 10 ^ 3],
    [4.3472961 / 10 ^ 2, 4.6729510 / 10 ^ 2, 4.3908931 / 10 ^ 2, 4.4626982 / 10 ^ 2, 5.4736038 / 10 ^ 2]]"

definition aht :: "real list" where
  "aht = [2.53 / 10 ^ 5, 5.49 / 10 ^ 3, 1.14 / 10 ^ 3]"

text \<open>
  An output argument \<^verbatim>\<open>double *mapfw\<close> is a \<^typ>\<open>real option\<close>: \<open>None\<close> is the
  null pointer, \<open>Some v\<close> a pointer to a cell that holds \<open>v\<close>. A function with such an
  argument returns its C result together with the cell after the call.
  \<open>store p v\<close> is the statement \<^verbatim>\<open>if (p) *p = v;\<close>.
\<close>

definition store :: "real option \<Rightarrow> real \<Rightarrow> real option" where
  "store p v = (case p of None \<Rightarrow> None | Some _ \<Rightarrow> Some v)"

text \<open>
  One pass of the body of \<^verbatim>\<open>for (i = 0; i<3; i++)\<close> on the arrays \<^verbatim>\<open>ah\<close> and
  \<^verbatim>\<open>aw\<close>, and the loop itself. The arrays are uninitialised locals of three cells;
  the loop writes each of them before it is read.
\<close>

definition nmf_body :: "real \<Rightarrow> real \<Rightarrow> nat \<Rightarrow> real list \<times> real list \<Rightarrow> real list \<times> real list" where
  "nmf_body lat cosy i s =
     (case s of (ah, aw) \<Rightarrow>
        (ah[i := interpc (coef ! i) lat - interpc (coef ! (i + 3)) lat * cosy],
         aw[i := interpc (coef ! (i + 6)) lat]))"

definition nmf_loop :: "real \<Rightarrow> real \<Rightarrow> real list \<times> real list \<Rightarrow> real list \<times> real list" where
  "nmf_loop lat cosy s = fold (nmf_body lat cosy) [0 ..< 3] s"

text \<open>
  \<^verbatim>\<open>time2doy\<close> is declared in the missing header and defined elsewhere; it is a
  parameter of the model, as is the type of \<^verbatim>\<open>gtime_t\<close>.
\<close>

definition nmf :: "('t \<Rightarrow> real) \<Rightarrow> 't \<Rightarrow> real list \<Rightarrow> real list \<Rightarrow> real option \<Rightarrow> real \<times> real option" where
  "nmf time2doy time pos azel mapfw =
     (let el = azel ! 1; lat = pos ! 0 * R2D; hgt = pos ! 2 in
      if el \<le> 0.0 then (0.0, store mapfw 0.0)
      else
        let y = (time2doy time - 28.0) / 365.25 + (if lat < 0.0 then 0.5 else 0.0);
            cosy = cos (2.0 * PI * y);
            lat = \<bar>lat\<bar>;
            (ah, aw) = nmf_loop lat cosy (replicate 3 0, replicate 3 0);
            dm = (1.0 / sin el - mapf el (aht ! 0) (aht ! 1) (aht ! 2)) * hgt / 10 ^ 3
        in (mapf el (ah ! 0) (ah ! 1) (ah ! 2) + dm,
            store mapfw (mapf el (aw ! 0) (aw ! 1) (aw ! 2))))"

subsection \<open>\<^verbatim>\<open>tropmapf\<close>: the mapping function of the interface\<close>

text \<open>
  The build without \<^verbatim>\<open>IERS_MODEL\<close>: the branch that calls \<^verbatim>\<open>nmf\<close>. The call of
  \<^verbatim>\<open>trace\<close> only writes a log line and is left out.
\<close>

definition tropmapf :: "('t \<Rightarrow> real) \<Rightarrow> 't \<Rightarrow> real list \<Rightarrow> real list \<Rightarrow> real option \<Rightarrow> real \<times> real option" where
  "tropmapf time2doy time pos azel mapfw =
     (if pos ! 2 < - 1000.0 \<or> pos ! 2 > 20000.0 then (0.0, store mapfw 0.0)
      else nmf time2doy time pos azel mapfw)"

section \<open>Domain guards\<close>

text \<open>
  C2. A height below \<open>-100\<close> or above \<open>10000\<close>, or an elevation that is not positive,
  makes \<open>tropmodel\<close> return exactly \<open>0\<close>, whatever the time, the humidity, the latitude,
  the longitude and the azimuth are.
\<close>

theorem tropmodel_outside_domain:
  "h < - 100 \<or> 10000 < h \<or> el \<le> 0 \<Longrightarrow> tropmodel time [lat, lon, h] [az, el] humi = 0"
  by (simp add: tropmodel_def)

theorem tropmodel_outside_domain_witness:
  "((- 200 :: real) < - 100 \<or> (10000 :: real) < - 200 \<or> (1 :: real) \<le> 0)
   \<and> tropmodel () [1, 2, - 200] [3, 1] 7 = 0"
  using tropmodel_outside_domain [of "- 200" 1 "()" 1 2 3 7] by simp

text \<open>
  C3. An elevation that is not positive, or a height outside \<open>[-1000, 20000]\<close>, makes
  \<open>tropmapf\<close> return the dry factor \<open>0\<close> and store \<open>0\<close> in the cell of the wet factor
  (a null pointer stays null). The height is tested by \<open>tropmapf\<close> itself, before
  \<open>nmf\<close> is called: the result for such a height is the same for every elevation.
\<close>

theorem tropmapf_outside_domain:
  "el \<le> 0 \<or> h < - 1000 \<or> 20000 < h \<Longrightarrow>
     tropmapf time2doy time [lat, lon, h] [az, el] (Some w) = (0, Some 0)
     \<and> tropmapf time2doy time [lat, lon, h] [az, el] None = (0, None)"
  by (auto simp add: tropmapf_def nmf_def store_def Let_def)

theorem tropmapf_outside_domain_witness:
  "((0 :: real) \<le> 0 \<or> (5 :: real) < - 1000 \<or> (20000 :: real) < 5)
   \<and> tropmapf (\<lambda>_. 100) () [1, 2, 5] [3, 0] (Some 9) = (0, Some 0)
   \<and> tropmapf (\<lambda>_. 100) () [1, 2, 5] [3, 0] None = (0, None)"
  using tropmapf_outside_domain [of 0 5 "\<lambda>_. 100" "()" 1 2 3 9] by simp

section \<open>The null output pointer\<close>

text \<open>
  C10. With a null pointer for the wet factor \<open>tropmapf\<close> returns the same dry factor
  as with a pointer to a cell, for all other arguments, and writes nothing: every write
  through the pointer is guarded by a test of the pointer.
\<close>

theorem tropmapf_null_mapfw:
  "fst (tropmapf time2doy time pos azel None) = fst (tropmapf time2doy time pos azel (Some w))
   \<and> snd (tropmapf time2doy time pos azel None) = None"
  by (simp add: tropmapf_def nmf_def store_def Let_def split: prod.split)

section \<open>The mapping form\<close>

text \<open>
  C9. With the three coefficients zero the mapping form is the cosecant:
  \<open>mapf el 0 0 0 = 1 / sin el\<close> for every elevation in \<open>(0, \<pi>/2]\<close>.
\<close>

theorem mapf_zero_coefficients:
  "0 < el \<Longrightarrow> el \<le> pi / 2 \<Longrightarrow> mapf el 0 0 0 = 1 / sin el"
  by (simp add: mapf_def)

theorem mapf_zero_coefficients_witness:
  "(0 :: real) < pi / 2 \<and> pi / 2 \<le> pi / 2 \<and> mapf (pi / 2) 0 0 0 = 1 / sin (pi / 2)"
  using mapf_zero_coefficients [of "pi / 2"] by simp

section \<open>The height in the standard atmosphere\<close>

text \<open>
  C1. The claim says that for a height in \<open>[-100, 0)\<close> the raw height still enters the
  denominator of the hydrostatic delay. The source clamps the height once, into \<open>hgt\<close>,
  and uses \<open>hgt\<close> everywhere afterwards, in the denominator too: at the height \<open>-100\<close>,
  on the equator, at the zenith and in dry air the source returns
  \<open>0.0022768 * 1013.25 / (1 - 0.00266)\<close>, and not the value of the spec's reading.
\<close>

theorem tropmodel_raw_height_counterexample:
  "tropmodel () [0, 0, - 100] [0, pi / 2] 0 = 0.0022768 * 1013.25 / (1 - 0.00266)
   \<and> tropmodel_spec () [0, 0, - 100] [0, pi / 2] 0 = 0.0022768 * 1013.25 / (1 - 0.00266 + 0.000028)
   \<and> tropmodel () [0, 0, - 100] [0, pi / 2] 0 \<noteq> tropmodel_spec () [0, 0, - 100] [0, pi / 2] 0"
  by (simp add: tropmodel_def tropmodel_spec_def PI_def not_le)

text \<open>
  C1, amended. For a height in \<open>[-100, 0)\<close> the clamped height \<open>0\<close> replaces the raw
  height in the pressure, in the temperature and in the denominator of the hydrostatic
  delay: the result is that of the height \<open>0\<close>, with the pressure \<open>1013.25\<close>, the
  temperature \<open>288.16\<close> and no height term in the denominator.
\<close>

theorem tropmodel_below_ellipsoid:
  "- 100 \<le> h \<Longrightarrow> h < 0 \<Longrightarrow> 0 < el \<Longrightarrow>
     tropmodel time [lat, lon, h] [az, el] humi = tropmodel time [lat, lon, 0] [az, el] humi
     \<and> tropmodel time [lat, lon, h] [az, el] humi =
         0.0022768 * 1013.25 / (1 - 0.00266 * cos (2 * lat)) / cos (PI / 2 - el)
         + 0.002277 * (1255 / 288.16 + 0.05)
             * (6.108 * humi * exp ((17.15 * 288.16 - 4684) / (288.16 - 38.45)))
             / cos (PI / 2 - el)"
proof -
  have "4 * ((625000 - 3325 * cos (2 * lat) / 2) * c) = (2500000 - 6650 * cos (2 * lat)) * c"
    for c :: real
    by (simp add: algebra_simps)
  then show "- 100 \<le> h \<Longrightarrow> h < 0 \<Longrightarrow> 0 < el \<Longrightarrow> ?thesis"
    by (simp add: tropmodel_def not_le Let_def)
qed

theorem tropmodel_below_ellipsoid_witness:
  "(- 100 :: real) \<le> - 50 \<and> (- 50 :: real) < 0 \<and> (0 :: real) < 1
   \<and> tropmodel () [0, 0, - 50] [0, 1] 0 = tropmodel () [0, 0, 0] [0, 1] 0"
  using tropmodel_below_ellipsoid [of "- 50" 1 "()" 0 0 0 0] by simp

section \<open>Interpolation in the table\<close>

text \<open>
  C5. The claim applies the blending formula with the band index clamped to \<open>[1, 4]\<close> at
  every latitude from \<open>0\<close>. The source returns the first entry of the row below 15
  degrees instead: at the latitude \<open>0\<close> the clamped index \<open>1\<close> would give
  \<open>2 * coef[0] - coef[1]\<close>.
\<close>

theorem interpc_clamped_formula_counterexample:
  "interpc (coef ! 0) 0 = coef ! 0 ! 0
   \<and> interpc_spec (coef ! 0) 0 = 2 * coef ! 0 ! 0 - coef ! 0 ! 1
   \<and> interpc (coef ! 0) 0 \<noteq> interpc_spec (coef ! 0) 0"
  by (simp add: interpc_def interpc_spec_def c_int_def coef_def)

text \<open>
  C5, amended. For a latitude \<open>0 \<le> lat < 15 * 2^31\<close> (beyond it the cast to
  \<^verbatim>\<open>int\<close> is undefined): from 15 up to, and without, 75 degrees the result is
  \<open>coef[i-1] * (1 - lat/15 + i) + coef[i] * (lat/15 - i)\<close> with \<open>i = \<lfloor>lat/15\<rfloor>\<close>, which
  lies in \<open>[1, 4]\<close>; below 15 degrees it is \<open>coef[0]\<close> and from 75 degrees on it is
  \<open>coef[4]\<close>.
\<close>

theorem interpc_bands:
  "0 \<le> lat \<Longrightarrow> lat < 15 * 2 ^ 31 \<Longrightarrow>
     interpc cf lat =
       (if lat < 15 then cf ! 0
        else if 75 \<le> lat then cf ! 4
        else cf ! nat (\<lfloor>lat / 15\<rfloor> - 1) * (1 - lat / 15 + real_of_int \<lfloor>lat / 15\<rfloor>)
               + cf ! nat \<lfloor>lat / 15\<rfloor> * (lat / 15 - real_of_int \<lfloor>lat / 15\<rfloor>))
     \<and> (15 \<le> lat \<and> lat < 75 \<longrightarrow> 1 \<le> \<lfloor>lat / 15\<rfloor> \<and> \<lfloor>lat / 15\<rfloor> \<le> 4)"
  by (simp add: interpc_def c_int_def Let_def)

theorem interpc_bands_witness:
  "interpc [1, 2, 3, 4, 5] 20 = 4 / 3 \<and> interpc [1, 2, 3, 4, 5] 50 = 10 / 3"
  using interpc_bands [of 20 "[1, 2, 3, 4, 5]"] interpc_bands [of 50 "[1, 2, 3, 4, 5]"]
  by simp

text \<open>
  C6. The interpolation is clamped at the ends of the table: the latitude \<open>0\<close> gives what
  the latitude \<open>15\<close> gives, the latitude \<open>90\<close> what the latitude \<open>75\<close> gives, and
  beyond the ends the entry at the end is returned unchanged: the first entry up to 15
  degrees, the last from 75 degrees on, for every latitude below \<open>15 * 2^31\<close> degrees,
  where the cast to \<^verbatim>\<open>int\<close> is defined.
\<close>

theorem interpc_clamped_at_ends:
  "interpc cf 0 = interpc cf 15 \<and> interpc cf 90 = interpc cf 75
   \<and> (lo \<le> 15 \<longrightarrow> interpc cf lo = cf ! 0)
   \<and> (75 \<le> hi \<and> hi < 15 * 2 ^ 31 \<longrightarrow> interpc cf hi = cf ! 4)"
  by (simp add: interpc_def c_int_def Let_def)

theorem interpc_clamped_at_ends_witness:
  "interpc (coef ! 6) 0 = interpc (coef ! 6) 15 \<and> interpc (coef ! 6) 90 = interpc (coef ! 6) 75
   \<and> interpc (coef ! 6) (- 10) = coef ! 6 ! 0
   \<and> interpc (coef ! 6) 80 = coef ! 6 ! 4"
  using interpc_clamped_at_ends [of "coef ! 6" "- 10" 80] by simp

section \<open>The coefficients of the Niell mapping function\<close>






section \<open>The sign of the mapping factors\<close>


























section \<open>The delay over the elevation\<close>

text \<open>
  The double nearest to \<open>\<pi>\<close> lies below \<open>\<pi>\<close>: Machin's formula, with the partial sums
  of the series of the arc tangent as bounds.
\<close>

lemma arctan_partial_sums:
  fixes x :: real
  assumes x: "0 \<le> x" "x \<le> 1"
  shows "(\<Sum>i<2 * n. (- 1) ^ i * (1 / real (i * 2 + 1) * x ^ (i * 2 + 1))) \<le> arctan x"
    and "arctan x \<le> (\<Sum>i<2 * n + 1. (- 1) ^ i * (1 / real (i * 2 + 1) * x ^ (i * 2 + 1)))"
proof -
  define a where "a = (\<lambda>i. 1 / real (i * 2 + 1) * x ^ (i * 2 + 1))"
  have ax: "\<bar>x\<bar> \<le> 1" using x by simp
  have z: "a \<longlonglongrightarrow> 0" unfolding a_def using ax by (rule zeroseq_arctan_series)
  have p: "0 \<le> a i" for i using x by (simp add: a_def)
  have m: "a (Suc i) \<le> a i" for i
  proof -
    have "x ^ (Suc i * 2 + 1) \<le> x ^ (i * 2 + 1)"
      using x by (intro power_decreasing) simp_all
    moreover have "1 / real (Suc i * 2 + 1) \<le> 1 / real (i * 2 + 1)"
      by (simp add: field_simps)
    ultimately show ?thesis
      unfolding a_def using x by (intro mult_mono) simp_all
  qed
  have s: "arctan x = (\<Sum>i. (- 1) ^ i * a i)"
    unfolding a_def using ax by (rule arctan_series)
  show "(\<Sum>i<2 * n. (- 1) ^ i * (1 / real (i * 2 + 1) * x ^ (i * 2 + 1))) \<le> arctan x"
    using summable_Leibniz'(2) [OF z p m, of n] by (simp add: s a_def)
  show "arctan x \<le> (\<Sum>i<2 * n + 1. (- 1) ^ i * (1 / real (i * 2 + 1) * x ^ (i * 2 + 1)))"
    using summable_Leibniz'(4) [OF z p m, of n] by (simp add: s a_def)
qed

lemma PI_d_less_pi: "PI_d < pi"
proof -
  have l: "(\<Sum>i<2 * 6. (- 1) ^ i * (1 / real (i * 2 + 1) * (1 / 5) ^ (i * 2 + 1))) \<le> arctan (1 / 5)"
    by (rule arctan_partial_sums) simp_all
  have u: "arctan (1 / 239) \<le> (\<Sum>i<2 * 1 + 1. (- 1) ^ i * (1 / real (i * 2 + 1) * (1 / 239) ^ (i * 2 + 1)))"
    by (rule arctan_partial_sums) simp_all
  have "pi = 16 * arctan (1 / 5) - 4 * arctan (1 / 239)"
    using machin by simp
  moreover have "PI_d
      < 16 * (\<Sum>i<2 * 6. (- 1) ^ i * (1 / real (i * 2 + 1) * (1 / 5) ^ (i * 2 + 1)))
        - 4 * (\<Sum>i<2 * 1 + 1. (- 1) ^ i * (1 / real (i * 2 + 1) * (1 / 239) ^ (i * 2 + 1)))"
    by (simp add: PI_d_def sum.lessThan_Suc eval_nat_numeral)
  ultimately show ?thesis
    using l u by linarith
qed

text \<open>
  \<open>round52\<close> is monotone, keeps \<open>0\<close> and \<open>PI_d / 2\<close>, and takes \<open>PI_d / 2\<close> less
  \<open>2^-60\<close> or \<open>2^-59\<close> back to \<open>PI_d / 2\<close>, as the subtraction of doubles does.
\<close>

lemma round_even_bounds: "\<lfloor>y\<rfloor> \<le> round_even y" "round_even y \<le> \<lfloor>y\<rfloor> + 1"
  by (simp_all add: round_even_def Let_def)

lemma round_even_mono:
  assumes "x \<le> y"
  shows "round_even x \<le> round_even y"
proof (cases "\<lfloor>x\<rfloor> = \<lfloor>y\<rfloor>")
  case True
  then show ?thesis
    using assms by (auto simp add: round_even_def Let_def)
next
  case False
  then have "\<lfloor>x\<rfloor> + 1 \<le> \<lfloor>y\<rfloor>"
    using floor_mono [OF assms] by linarith
  then show ?thesis
    using round_even_bounds(2) [of x] round_even_bounds(1) [of y] by linarith
qed

lemma round52_mono: "mono round52"
  by (rule monoI) (simp add: round52_def divide_right_mono round_even_mono mult_right_mono)

lemma round52_0: "round52 0 = 0"
  by (simp add: round52_def round_even_def)

lemma round52_half_PI_d: "round52 (PI_d / 2) = PI_d / 2"
  by (simp add: round52_def round_even_def PI_d_def Let_def)

lemma round52_near: "round52 (PI_d / 2 - 1 / 2 ^ 60) = PI_d / 2" "round52 (PI_d / 2 - 1 / 2 ^ 59) = PI_d / 2"
  by (simp_all add: round52_def round_even_def PI_d_def Let_def)

text \<open>
  Inside the domain of \<open>tropmodel\<close> the delay is a positive zenith delay divided by the
  cosine of the zenith angle as computed.
\<close>

lemma tropmodel_rounded_exact: "tropmodel_rounded id PI time pos azel humi = tropmodel time pos azel humi"
  by (simp add: tropmodel_rounded_def tropmodel_def)

lemma tropmodel_rounded_secant:
  assumes h: "- 100 \<le> h" "h \<le> 10000" and humi: "0 \<le> humi"
  shows "\<exists>Z>0. \<forall>rnd PIc az el. 0 < el \<longrightarrow>
           tropmodel_rounded rnd PIc time [la, lo, h] [az, el] humi = Z / cos (rnd (PIc / 2 - el))"
proof -
  define hgt where "hgt = (if h < 0 then 0 else h)"
  define pres where "pres = 1013.25 * (1 - 2.2557 / 10 ^ 5 * hgt) powr 5.2568"
  define temp where "temp = 15 - 6.5 / 10 ^ 3 * hgt + 273.16"
  define e where "e = 6.108 * humi * exp ((17.15 * temp - 4684) / (temp - 38.45))"
  define cc where "cc = cos (2 * la)"
  define den where "den = 1 - 0.00266 * cc - 0.00028 * hgt / 10 ^ 3"
  define Z where "Z = 0.0022768 * pres / den + 0.002277 * (1255 / temp + 0.05) * e"
  have hgt: "0 \<le> hgt" "hgt \<le> 10000"
    using h by (simp_all add: hgt_def)
  have "0 < 1 - 2.2557 / 10 ^ 5 * hgt"
    using hgt by simp
  then have pres: "0 < pres"
    by (simp add: pres_def)
  have "cc \<le> 1"
    by (simp add: cc_def)
  then have den: "0 < den"
    using hgt by (simp add: den_def)
  have temp: "0 < temp"
    using hgt by (simp add: temp_def)
  have e: "0 \<le> e"
    using humi by (simp add: e_def)
  have "0 \<le> 0.002277 * (1255 / temp + 0.05) * e"
    using temp e by simp
  moreover have "0 < 0.0022768 * pres / den"
    using pres den by simp
  ultimately have Z: "0 < Z"
    unfolding Z_def by linarith
  have "tropmodel_rounded rnd PIc time [la, lo, h] [az, el] humi = Z / cos (rnd (PIc / 2 - el))"
    if "0 < el" for rnd PIc az el
  proof -
    define c where "c = cos (rnd (PIc / 2 - el))"
    have "tropmodel_rounded rnd PIc time [la, lo, h] [az, el] humi
            = 0.0022768 * pres / den / c + 0.002277 * (1255 / temp + 0.05) * e / c"
      using h that unfolding pres_def temp_def e_def den_def cc_def hgt_def c_def
      by (simp add: tropmodel_rounded_def Let_def not_less not_le)
    then show ?thesis
      by (simp add: Z_def c_def add_divide_distrib)
  qed
  with Z show ?thesis
    by blast
qed

lemma tropmodel_rounded_same_zenith:
  assumes "rnd (PIc / 2 - e1) = rnd (PIc / 2 - e2)" "0 < e1" "0 < e2"
  shows "tropmodel_rounded rnd PIc time pos [az, e1] humi
           = tropmodel_rounded rnd PIc time pos [az, e2] humi"
  using assms by (simp add: tropmodel_rounded_def Let_def not_le)

text \<open>
  C7. The claim says that the delay at the lower of two elevations in \<open>(0, \<pi>/2]\<close> is
  strictly greater. The source rounds the zenith angle \<^verbatim>\<open>PI / 2.0 - azel[1]\<close> to a
  double: the elevations \<open>2^-60\<close> and \<open>2^-59\<close> both give the zenith angle
  \<^verbatim>\<open>PI / 2.0\<close>, and whatever the library's cosine returns for it, the two delays are
  the same.
\<close>

theorem tropmodel_equal_delay_counterexample:
  "(0 :: real) < 1 / 2 ^ 60 \<and> (1 :: real) / 2 ^ 60 < 1 / 2 ^ 59 \<and> 1 / 2 ^ 59 \<le> pi / 2
   \<and> round52 (PI_d / 2 - 1 / 2 ^ 60) = round52 (PI_d / 2 - 1 / 2 ^ 59)
   \<and> tropmodel_rounded round52 PI_d () [1 / 2, 0, 100] [0, 1 / 2 ^ 60] (7 / 10)
       = tropmodel_rounded round52 PI_d () [1 / 2, 0, 100] [0, 1 / 2 ^ 59] (7 / 10)
   \<and> \<not> tropmodel_rounded round52 PI_d () [1 / 2, 0, 100] [0, 1 / 2 ^ 59] (7 / 10)
         < tropmodel_rounded round52 PI_d () [1 / 2, 0, 100] [0, 1 / 2 ^ 60] (7 / 10)"
proof -
  have a: "1 / 2 ^ 59 \<le> pi / 2"
    using pi_ge_two by simp
  have b: "tropmodel_rounded round52 PI_d () [1 / 2, 0, 100] [0, 1 / 2 ^ 60] (7 / 10)
       = tropmodel_rounded round52 PI_d () [1 / 2, 0, 100] [0, 1 / 2 ^ 59] (7 / 10)"
    by (rule tropmodel_rounded_same_zenith) (simp_all only: round52_near, simp_all)
  have c: "round52 (PI_d / 2 - 1 / 2 ^ 60) = round52 (PI_d / 2 - 1 / 2 ^ 59)"
    by (simp only: round52_near)
  have d: "(0 :: real) < 1 / 2 ^ 60 \<and> (1 :: real) / 2 ^ 60 < 1 / 2 ^ 59"
    by simp
  show ?thesis
    using a b c d by (simp only: simp_thms)
qed

text \<open>
  C7, amended. For a height in \<open>[-100, 10000]\<close>, a humidity that is not negative and
  two elevations \<open>0 < el1 < el2 \<le> PI / 2\<close>, the delay at \<open>el1\<close> is at least the delay
  at \<open>el2\<close>. This holds for every rounding of the zenith angle that is monotone and
  keeps \<open>0\<close> and \<open>PI / 2\<close>, as the rounding of doubles does, and every value of the
  constant \<^verbatim>\<open>PI\<close> below \<open>\<pi>\<close>, as the double nearest to \<open>\<pi>\<close> is; the other
  operations are exact.
\<close>

theorem tropmodel_rounded_mono:
  assumes rnd: "mono rnd" "rnd 0 = 0" "rnd (PIc / 2) = PIc / 2" and PIc: "PIc < pi"
    and h: "- 100 \<le> h" "h \<le> 10000" and humi: "0 \<le> humi"
    and el: "0 < el1" "el1 < el2" "el2 \<le> PIc / 2"
  shows "tropmodel_rounded rnd PIc time [la, lo, h] [az, el2] humi
           \<le> tropmodel_rounded rnd PIc time [la, lo, h] [az, el1] humi"
proof -
  obtain Z where Z: "0 < Z"
    and f: "\<And>az el. 0 < el \<Longrightarrow>
              tropmodel_rounded rnd PIc time [la, lo, h] [az, el] humi = Z / cos (rnd (PIc / 2 - el))"
    using tropmodel_rounded_secant [OF h humi, of time la lo] by blast
  define z1 where "z1 = rnd (PIc / 2 - el1)"
  define z2 where "z2 = rnd (PIc / 2 - el2)"
  have "rnd 0 \<le> z2"
    unfolding z2_def using el by (intro monoD [OF rnd(1)]) simp
  then have z2: "0 \<le> z2"
    by (simp add: rnd(2))
  have z21: "z2 \<le> z1"
    unfolding z1_def z2_def using el by (intro monoD [OF rnd(1)]) simp
  have "z1 \<le> rnd (PIc / 2)"
    unfolding z1_def using el by (intro monoD [OF rnd(1)]) simp
  then have z1: "z1 < pi / 2"
    using PIc by (simp add: rnd(3))
  have c1: "0 < cos z1"
    using z2 z21 z1 by (intro cos_gt_zero_pi) linarith+
  have c12: "cos z1 \<le> cos z2"
    using z2 z21 z1 pi_gt_zero by (intro cos_monotone_0_pi_le) linarith+
  have "Z / cos z2 \<le> Z / cos z1"
    using Z c1 c12 by (intro divide_left_mono) (simp_all add: mult_pos_pos less_le_trans [OF c1 c12])
  then show ?thesis
    using f [of el1 az] f [of el2 az] el by (simp add: z1_def z2_def)
qed

theorem tropmodel_rounded_mono_witness:
  "tropmodel_rounded round52 PI_d () [1 / 2, 0, 100] [0, 3 / 2] (7 / 10)
     \<le> tropmodel_rounded round52 PI_d () [1 / 2, 0, 100] [0, 1] (7 / 10)"
proof -
  have "(3 :: real) / 2 \<le> PI_d / 2"
    by (simp add: PI_d_def)
  then show ?thesis
    using tropmodel_rounded_mono [OF round52_mono round52_0 round52_half_PI_d PI_d_less_pi,
        of 100 "7 / 10" 1 "3 / 2" "()" "1 / 2" 0 0]
    by simp
qed

text \<open>
  In exact arithmetic, with no rounding and \<open>\<pi>\<close> for the constant, the delay is the
  zenith delay divided by the sine of the elevation, and the inequality is strict. This is
  a fact of the formula, not of the doubles the source returns.
\<close>

lemma tropmodel_cosecant:
  assumes h: "- 100 \<le> h" "h \<le> 10000" and humi: "0 \<le> humi"
  shows "\<exists>Z>0. \<forall>az el. 0 < el \<longrightarrow> tropmodel time [la, lo, h] [az, el] humi = Z / sin el"
proof -
  obtain Z where Z: "0 < Z"
    and f: "\<And>rnd PIc az el. 0 < el \<Longrightarrow>
              tropmodel_rounded rnd PIc time [la, lo, h] [az, el] humi
                = Z / cos (rnd (PIc / 2 - el))"
    using tropmodel_rounded_secant [OF h humi, of time la lo] by blast
  have "tropmodel time [la, lo, h] [az, el] humi = Z / sin el" if "0 < el" for az el
    using f [OF that, of id PI az] unfolding tropmodel_rounded_exact
    by (simp add: PI_def sin_cos_eq)
  with Z show ?thesis
    by blast
qed

lemma tropmodel_strict_mono_exact:
  assumes h: "- 100 \<le> h" "h \<le> 10000" and humi: "0 \<le> humi"
    and el: "0 < el1" "el1 < el2" "el2 \<le> pi / 2"
  shows "tropmodel time [la, lo, h] [az, el2] humi < tropmodel time [la, lo, h] [az, el1] humi"
proof -
  obtain Z where Z: "0 < Z"
    and f: "\<And>az el. 0 < el \<Longrightarrow> tropmodel time [la, lo, h] [az, el] humi = Z / sin el"
    using tropmodel_cosecant [OF h humi, of time la lo] by blast
  have s1: "0 < sin el1" using el pi_gt_zero by (intro sin_gt_zero) linarith+
  have s12: "sin el1 < sin el2" using el by (intro sin_monotone_2pi) linarith+
  have "Z / sin el2 < Z / sin el1"
    using Z s1 s12 by (simp add: divide_strict_left_mono)
  then show ?thesis
    using f [of el1 az] f [of el2 az] el by simp
qed

end
